theory Spec2Isabelle
  imports Complex_Main "HOL-Library.AList"
begin

section \<open>Python values, exceptions and the host framework\<close>

text \<open>
  The two modules (\<^verbatim>\<open>setup.py\<close>, \<^verbatim>\<open>usage_limits.py\<close>) are sequences of calls into the
  host framework. The values they pass around are Python objects decoded from JSON or read
  from the database; \<open>pyval\<close> is the part of that universe the code handles: the values
  JSON can carry, which is what the decoded configurations, the limits and the configuration
  file hold. A finite float is kept by its exact rational value. Dates, which only the
  database holds, are kept apart.
\<close>

datatype pyfloat = Finite rat | PosInf | NegInf | NaN

datatype pyval =
    PNone
  | PBool bool
  | PInt int
  | PFloat pyfloat
  | PStr string
  | PList "pyval list"
  | PDict "(string \<times> pyval) list"

type_synonym dict = "(string \<times> pyval) list"

text \<open>
  An exception is its class and its string form (\<open>str(e)\<close>). \<open>Thrown\<close> is the exception
  of \<open>frappe.throw(msg, title=...)\<close>, the framework's user-facing validation error. The
  exceptions are those deriving from \<open>Exception\<close>, the ones \<open>except Exception\<close> catches.
\<close>

datatype exn =
    PyExn (exn_class: string) (exn_str: string)
  | Thrown (exn_title: string) (exn_str: string)

text \<open>Python truthiness (\<open>if x\<close>, \<open>not x\<close>, \<open>x or y\<close>).\<close>

fun truthy :: "pyval \<Rightarrow> bool" where
  "truthy PNone = False"
| "truthy (PBool b) = b"
| "truthy (PInt i) = (i \<noteq> 0)"
| "truthy (PFloat f) = (f \<noteq> Finite 0)"
| "truthy (PStr s) = (s \<noteq> [])"
| "truthy (PList xs) = (xs \<noteq> [])"
| "truthy (PDict kvs) = (kvs \<noteq> [])"

definition py_or :: "pyval \<Rightarrow> pyval \<Rightarrow> pyval" where
  "py_or a b = (if truthy a then a else b)"

definition quoted :: "string \<Rightarrow> string" where
  "quoted s = CHR 0x27 # s @ [CHR 0x27]"

subsection \<open>Documents, database, site\<close>

type_synonym date = "nat \<times> nat \<times> nat"

text \<open>A stored document: its doctype, its name, its fields, and its date columns.\<close>

datatype doc = Doc (doctype: string) (docname: pyval) (docfields: dict)
  (docdates: "(string \<times> date) list")

record database =
  docs :: "doc list"
  singles :: "((string \<times> string) \<times> pyval) list"
  defaults :: "(string \<times> pyval) list"
  passwords :: "(pyval \<times> pyval) list"

text \<open>The file \<open>site_config.json\<close>: missing, not parseable as JSON, or a JSON value.\<close>

datatype config_file = Absent | Garbage | Json pyval

text \<open>
  Ghost history of the calls that read the limits or count documents: cache reads and
  writes, reads of \<open>frappe.conf\<close>, and \<open>frappe.db.count\<close>.
\<close>

datatype event = CacheGet string | CacheSet string | ConfGet string | DbCount string

record site =
  cache :: dict
  conf :: dict
  site_config :: config_file
  db :: database
  committed :: database
  flag_ignore_permissions :: bool
  flag_in_setup_wizard :: bool
  stdout :: "string list"
  stderr :: "string list"
  error_log :: "string list"
  history :: "event list"

text \<open>
  What the code calls but does not define: Python builtins and library functions, and the
  outcome of the framework's own pipelines (naming and validation on insert and save, the
  password store, the cache backend, the file system's permissions, the clock). They are
  parameters of every definition below.

  \<^item> \<open>decode_config\<close> is \<open>json.loads(base64.b64decode(x).decode())\<close>;
    \<open>py_int\<close>, \<open>py_float\<close> and \<open>py_str\<close> are \<open>int\<close>, \<open>float\<close> and \<open>str\<close>;
    \<open>format1\<close> is \<open>str.format\<close> with one argument, \<open>translate\<close> is \<open>frappe._\<close>;
    \<open>interp_msg\<close> is the text of the error the interpreter raises for an operation on a value.
  \<^item> \<open>on_insert\<close> names a new document or refuses it; \<open>on_save\<close>,
    \<open>on_get_single\<close> and \<open>on_update_password\<close> say whether the call raises.
  \<^item> \<open>cache_fault\<close> is the exception of a cache call when the backend fails,
    \<open>open_write_fault\<close> that of opening \<open>site_config.json\<close> for writing;
    \<open>cache_after_clear\<close> is what \<open>frappe.clear_cache()\<close> leaves of the cache.

  Calls that print or log, and the calls of \<open>frappe.db\<close> that read or write a value
  directly, are taken to succeed; a file opened for writing is written to the end.
\<close>

record host =
  decode_config :: "pyval \<Rightarrow> exn + pyval"
  py_int :: "pyval \<Rightarrow> exn + int"
  py_float :: "pyval \<Rightarrow> exn + pyfloat"
  py_str :: "pyval \<Rightarrow> string"
  translate :: "string \<Rightarrow> string"
  format1 :: "string \<Rightarrow> pyval \<Rightarrow> string"
  interp_msg :: "string \<Rightarrow> pyval \<Rightarrow> string"
  on_insert :: "database \<Rightarrow> string \<Rightarrow> dict \<Rightarrow> exn + pyval"
  on_save :: "database \<Rightarrow> string \<Rightarrow> dict \<Rightarrow> exn option"
  on_get_single :: "database \<Rightarrow> string \<Rightarrow> exn option"
  on_update_password :: "database \<Rightarrow> pyval \<Rightarrow> pyval \<Rightarrow> exn option"
  cache_fault :: "exn option"
  cache_after_clear :: "dict \<Rightarrow> dict"
  open_write_fault :: "exn option"
  today :: date

subsection \<open>Exceptions and state: the shape of every function\<close>

type_synonym 'a io = "site \<Rightarrow> (exn + 'a) \<times> site"

definition ret :: "'a \<Rightarrow> 'a io" where
  "ret x = (\<lambda>s. (Inr x, s))"

definition raise :: "exn \<Rightarrow> 'a io" where
  "raise e = (\<lambda>s. (Inl e, s))"

definition bnd :: "'a io \<Rightarrow> ('a \<Rightarrow> 'b io) \<Rightarrow> 'b io" where
  "bnd m f = (\<lambda>s. case m s of (Inl e, s') \<Rightarrow> (Inl e, s') | (Inr x, s') \<Rightarrow> f x s')"

definition thn :: "unit io \<Rightarrow> 'b io \<Rightarrow> 'b io" where
  "thn m n = bnd m (\<lambda>_. n)"

fun seq :: "unit io list \<Rightarrow> unit io" where
  "seq [] = ret ()"
| "seq (m # ms) = thn m (seq ms)"

definition try_except :: "'a io \<Rightarrow> (exn \<Rightarrow> 'a io) \<Rightarrow> 'a io" where
  "try_except m h = (\<lambda>s. case m s of (Inl e, s') \<Rightarrow> h e s' | (Inr x, s') \<Rightarrow> (Inr x, s'))"

definition lift :: "exn + 'a \<Rightarrow> 'a io" where
  "lift r = (case r of Inl e \<Rightarrow> raise e | Inr x \<Rightarrow> ret x)"

definition py_when :: "bool \<Rightarrow> unit io \<Rightarrow> unit io" where
  "py_when b m = (if b then m else ret ())"

fun for_each :: "'a list \<Rightarrow> ('a \<Rightarrow> unit io) \<Rightarrow> unit io" where
  "for_each [] f = ret ()"
| "for_each (x # xs) f = thn (f x) (for_each xs f)"

subsection \<open>Python operations on values\<close>

definition str_of :: "host \<Rightarrow> pyval \<Rightarrow> string" where
  "str_of h v = (case v of PStr s \<Rightarrow> s | _ \<Rightarrow> py_str h v)"

text \<open>\<open>d[k]\<close> for a literal key \<open>k\<close>.\<close>

definition py_getitem :: "host \<Rightarrow> pyval \<Rightarrow> string \<Rightarrow> exn + pyval" where
  "py_getitem h d k =
     (case d of
        PDict kvs \<Rightarrow> (case map_of kvs k of
                        Some v \<Rightarrow> Inr v
                      | None \<Rightarrow> Inl (PyExn ''KeyError'' (quoted k)))
      | _ \<Rightarrow> Inl (PyExn ''TypeError'' (interp_msg h ''getitem'' d)))"

text \<open>\<open>d.get(k, dflt)\<close>.\<close>

definition py_get :: "host \<Rightarrow> pyval \<Rightarrow> string \<Rightarrow> pyval \<Rightarrow> exn + pyval" where
  "py_get h d k dflt =
     (case d of
        PDict kvs \<Rightarrow> (case map_of kvs k of Some v \<Rightarrow> Inr v | None \<Rightarrow> Inr dflt)
      | _ \<Rightarrow> Inl (PyExn ''AttributeError'' (interp_msg h ''get'' d)))"

text \<open>\<open>d[k] = v\<close>: a dict keeps the places of its keys and appends a new one.\<close>

definition py_setitem :: "host \<Rightarrow> pyval \<Rightarrow> string \<Rightarrow> pyval \<Rightarrow> exn + pyval" where
  "py_setitem h d k v =
     (case d of
        PDict kvs \<Rightarrow> Inr (PDict (AList.update k v kvs))
      | _ \<Rightarrow> Inl (PyExn ''TypeError'' (interp_msg h ''setitem'' d)))"

text \<open>\<open>n >= v\<close> for an int \<open>n\<close>: numbers compare by value, anything else is a TypeError.\<close>

definition int_ge :: "host \<Rightarrow> int \<Rightarrow> pyval \<Rightarrow> exn + bool" where
  "int_ge h n v =
     (case v of
        PInt i \<Rightarrow> Inr (n \<ge> i)
      | PBool b \<Rightarrow> Inr (n \<ge> (if b then 1 else 0))
      | PFloat (Finite r) \<Rightarrow> Inr (of_int n \<ge> r)
      | PFloat PosInf \<Rightarrow> Inr False
      | PFloat NegInf \<Rightarrow> Inr True
      | PFloat NaN \<Rightarrow> Inr False
      | _ \<Rightarrow> Inl (PyExn ''TypeError'' (interp_msg h ''>='' v)))"

subsection \<open>Framework calls\<close>

definition print :: "string \<Rightarrow> unit io" where
  "print line = (\<lambda>s. (Inr (), s\<lparr>stdout := stdout s @ [line]\<rparr>))"

definition print_exc :: "exn \<Rightarrow> unit io" where
  "print_exc e = (\<lambda>s. (Inr (), s\<lparr>stderr := stderr s @ [exn_str e]\<rparr>))"

definition log_error :: "string \<Rightarrow> unit io" where
  "log_error msg = (\<lambda>s. (Inr (), s\<lparr>error_log := error_log s @ [msg]\<rparr>))"

definition record_event :: "event \<Rightarrow> unit io" where
  "record_event ev = (\<lambda>s. (Inr (), s\<lparr>history := history s @ [ev]\<rparr>))"

definition frappe_throw :: "string \<Rightarrow> string \<Rightarrow> 'a io" where
  "frappe_throw msg title = raise (Thrown title msg)"

text \<open>
  \<open>frappe.cache().get_value(key)\<close> and \<open>set_value(key, v)\<close>: a call of the cache raises
  (a timeout of the backend, say) or takes effect; a key that is not there reads as \<open>None\<close>.
\<close>

definition cache_get_value :: "host \<Rightarrow> string \<Rightarrow> pyval io" where
  "cache_get_value h key =
     thn (record_event (CacheGet key))
       (case cache_fault h of
          Some e \<Rightarrow> raise e
        | None \<Rightarrow> (\<lambda>s. (Inr (case map_of (cache s) key of Some v \<Rightarrow> v | None \<Rightarrow> PNone), s)))"

definition cache_set_value :: "host \<Rightarrow> string \<Rightarrow> pyval \<Rightarrow> unit io" where
  "cache_set_value h key v =
     thn (record_event (CacheSet key))
       (case cache_fault h of
          Some e \<Rightarrow> raise e
        | None \<Rightarrow> (\<lambda>s. (Inr (), s\<lparr>cache := AList.update key v (cache s)\<rparr>)))"

text \<open>\<open>frappe.conf.get(key, dflt)\<close>.\<close>

definition conf_get :: "string \<Rightarrow> pyval \<Rightarrow> pyval io" where
  "conf_get key dflt =
     thn (record_event (ConfGet key))
       (\<lambda>s. (Inr (case map_of (conf s) key of Some v \<Rightarrow> v | None \<Rightarrow> dflt), s))"

text \<open>\<open>open(path)\<close> then \<open>json.load(f)\<close> on \<open>site_config.json\<close>.\<close>

definition load_site_config :: "host \<Rightarrow> pyval io" where
  "load_site_config h =
     (\<lambda>s. case site_config s of
             Absent \<Rightarrow>
               (Inl (PyExn ''FileNotFoundError'' (interp_msg h ''open'' (PStr ''site_config.json''))), s)
           | Garbage \<Rightarrow>
               (Inl (PyExn ''JSONDecodeError'' (interp_msg h ''json.load'' (PStr ''site_config.json''))), s)
           | Json v \<Rightarrow> (Inr v, s))"

text \<open>
  \<open>open(path, "w")\<close> then \<open>json.dump(v, f)\<close>: a refused open leaves the file as it is;
  every value of \<open>pyval\<close> is one \<open>json.dump\<close> writes.
\<close>

definition dump_site_config :: "host \<Rightarrow> pyval \<Rightarrow> unit io" where
  "dump_site_config h v =
     (case open_write_fault h of
        Some e \<Rightarrow> raise e
      | None \<Rightarrow> (\<lambda>s. (Inr (), s\<lparr>site_config := Json v\<rparr>)))"

subsection \<open>Database calls\<close>

text \<open>
  The filters of \<open>frappe.db.count\<close> and \<open>frappe.db.exists\<close>: a value (equality),
  \<open>["!=", v]\<close>, \<open>["not in", vs]\<close>, \<open>["between", [lo, hi]]\<close> on a date column. The field
  \<open>name\<close> is the document's name; a field the document does not have reads as \<open>None\<close>, and
  a date column it does not have is in no range. Comparisons are on the stored values
  themselves.
\<close>

datatype cond = Eq pyval | Ne pyval | NotIn "pyval list" | Between date date

definition doc_value :: "doc \<Rightarrow> string \<Rightarrow> pyval" where
  "doc_value d f =
     (if f = ''name'' then docname d
      else case map_of (docfields d) f of Some v \<Rightarrow> v | None \<Rightarrow> PNone)"

fun date_le :: "date \<Rightarrow> date \<Rightarrow> bool" where
  "date_le (y, m, d) (y', m', d') =
     (y < y' \<or> (y = y' \<and> (m < m' \<or> (m = m' \<and> d \<le> d'))))"

fun holds :: "cond \<Rightarrow> doc \<Rightarrow> string \<Rightarrow> bool" where
  "holds (Eq v) d f = (doc_value d f = v)"
| "holds (Ne v) d f = (doc_value d f \<noteq> v)"
| "holds (NotIn vs) d f = (doc_value d f \<notin> set vs)"
| "holds (Between lo hi) d f =
     (case map_of (docdates d) f of
        Some x \<Rightarrow> date_le lo x \<and> date_le x hi
      | None \<Rightarrow> False)"

definition matches :: "string \<Rightarrow> (string \<times> cond) list \<Rightarrow> doc \<Rightarrow> bool" where
  "matches dt flt d = (doctype d = dt \<and> list_all (\<lambda>(f, c). holds c d f) flt)"

definition db_count :: "string \<Rightarrow> (string \<times> cond) list \<Rightarrow> int io" where
  "db_count dt flt =
     thn (record_event (DbCount dt))
       (\<lambda>s. (Inr (int (length (filter (matches dt flt) (docs (db s))))), s))"

definition has_doc :: "database \<Rightarrow> string \<Rightarrow> pyval \<Rightarrow> bool" where
  "has_doc b dt nm = list_ex (\<lambda>d. doctype d = dt \<and> docname d = nm) (docs b)"

text \<open>\<open>frappe.db.exists(doctype, name)\<close> and \<open>frappe.db.exists(doctype, {field: value})\<close>.\<close>

definition db_exists :: "string \<Rightarrow> pyval \<Rightarrow> bool io" where
  "db_exists dt nm = (\<lambda>s. (Inr (has_doc (db s) dt nm), s))"

definition db_exists_where :: "string \<Rightarrow> (string \<times> cond) list \<Rightarrow> bool io" where
  "db_exists_where dt flt = (\<lambda>s. (Inr (list_ex (matches dt flt) (docs (db s))), s))"

definition set_field :: "string \<Rightarrow> pyval \<Rightarrow> doc \<Rightarrow> doc" where
  "set_field f v d = Doc (doctype d) (docname d) (AList.update f v (docfields d)) (docdates d)"

text \<open>\<open>frappe.db.set_value(doctype, {field: value}, f, v)\<close>.\<close>

definition db_set_value :: "string \<Rightarrow> (string \<times> cond) list \<Rightarrow> string \<Rightarrow> pyval \<Rightarrow> unit io" where
  "db_set_value dt flt f v =
     (\<lambda>s. (Inr (), s\<lparr>db := (db s)\<lparr>docs := map (\<lambda>d. if matches dt flt d then set_field f v d else d)
                                               (docs (db s))\<rparr>\<rparr>))"

definition set_single_value :: "string \<Rightarrow> string \<Rightarrow> pyval \<Rightarrow> unit io" where
  "set_single_value dt f v =
     (\<lambda>s. (Inr (), s\<lparr>db := (db s)\<lparr>singles := AList.update (dt, f) v (singles (db s))\<rparr>\<rparr>))"

definition set_default :: "string \<Rightarrow> pyval \<Rightarrow> unit io" where
  "set_default k v =
     (\<lambda>s. (Inr (), s\<lparr>db := (db s)\<lparr>defaults := AList.update k v (defaults (db s))\<rparr>\<rparr>))"

definition db_commit :: "unit io" where
  "db_commit = (\<lambda>s. (Inr (), s\<lparr>committed := db s\<rparr>))"

text \<open>
  \<open>frappe.get_doc({...}).insert()\<close>: the framework names and validates the document, and
  refuses a name that is taken; the document object is returned.
\<close>

definition insert_doc :: "host \<Rightarrow> string \<Rightarrow> dict \<Rightarrow> doc io" where
  "insert_doc h dt flds =
     (\<lambda>s. case on_insert h (db s) dt flds of
             Inl e \<Rightarrow> (Inl e, s)
           | Inr nm \<Rightarrow>
               if has_doc (db s) dt nm
               then (Inl (PyExn ''DuplicateEntryError'' (str_of h nm)), s)
               else (Inr (Doc dt nm flds []),
                     s\<lparr>db := (db s)\<lparr>docs := docs (db s) @ [Doc dt nm flds []]\<rparr>\<rparr>))"

text \<open>\<open>frappe.get_doc(doctype, name)\<close>.\<close>

definition get_doc :: "host \<Rightarrow> string \<Rightarrow> pyval \<Rightarrow> doc io" where
  "get_doc h dt nm =
     (\<lambda>s. case filter (\<lambda>d. doctype d = dt \<and> docname d = nm) (docs (db s)) of
             [] \<Rightarrow> (Inl (PyExn ''DoesNotExistError'' (str_of h nm)), s)
           | d # _ \<Rightarrow> (Inr d, s))"

text \<open>\<open>doc.save()\<close>: validated, then written over the stored document of that name.\<close>

definition save_doc :: "host \<Rightarrow> doc \<Rightarrow> unit io" where
  "save_doc h d =
     (\<lambda>s. case on_save h (db s) (doctype d) (docfields d) of
             Some e \<Rightarrow> (Inl e, s)
           | None \<Rightarrow>
               (Inr (), s\<lparr>db := (db s)\<lparr>docs :=
                  map (\<lambda>x. if doctype x = doctype d \<and> docname x = docname d then d else x)
                      (docs (db s))\<rparr>\<rparr>))"

definition doc_roles :: "doc \<Rightarrow> pyval list" where
  "doc_roles d = (case map_of (docfields d) ''roles'' of Some (PList rs) \<Rightarrow> rs | _ \<Rightarrow> [])"

text \<open>\<open>user.add_roles(role)\<close>: appends the role if the user lacks it, and saves.\<close>

definition add_roles :: "host \<Rightarrow> doc \<Rightarrow> string \<Rightarrow> doc io" where
  "add_roles h d role =
     (let rs = doc_roles d;
          d' = set_field ''roles'' (PList (if PStr role \<in> set rs then rs else rs @ [PStr role])) d
      in thn (save_doc h d') (ret d'))"

text \<open>\<open>frappe.get_single(doctype)\<close>, and \<open>save()\<close> on it after setting the given fields.\<close>

definition get_single :: "host \<Rightarrow> string \<Rightarrow> unit io" where
  "get_single h dt =
     (\<lambda>s. case on_get_single h (db s) dt of Some e \<Rightarrow> (Inl e, s) | None \<Rightarrow> (Inr (), s))"

definition save_single :: "host \<Rightarrow> string \<Rightarrow> dict \<Rightarrow> unit io" where
  "save_single h dt upd =
     (\<lambda>s. case on_save h (db s) dt upd of
             Some e \<Rightarrow> (Inl e, s)
           | None \<Rightarrow>
               (Inr (), s\<lparr>db := (db s)\<lparr>singles :=
                  fold (\<lambda>(f, v). AList.update (dt, f) v) upd (singles (db s))\<rparr>\<rparr>))"

text \<open>\<open>update_password(user, pwd)\<close> of \<open>frappe.utils.password\<close>.\<close>

definition update_password :: "host \<Rightarrow> pyval \<Rightarrow> pyval \<Rightarrow> unit io" where
  "update_password h user pwd =
     (\<lambda>s. case on_update_password h (db s) user pwd of
             Some e \<Rightarrow> (Inl e, s)
           | None \<Rightarrow>
               (Inr (), s\<lparr>db := (db s)\<lparr>passwords := AList.update user pwd (passwords (db s))\<rparr>\<rparr>))"

definition clear_cache :: "host \<Rightarrow> unit io" where
  "clear_cache h = (\<lambda>s. (Inr (), s\<lparr>cache := cache_after_clear h (cache s)\<rparr>))"

definition set_ignore_permissions :: "bool \<Rightarrow> unit io" where
  "set_ignore_permissions b = (\<lambda>s. (Inr (), s\<lparr>flag_ignore_permissions := b\<rparr>))"

definition set_in_setup_wizard :: "bool \<Rightarrow> unit io" where
  "set_in_setup_wizard b = (\<lambda>s. (Inr (), s\<lparr>flag_in_setup_wizard := b\<rparr>))"

subsection \<open>Dates\<close>

definition leap_year :: "nat \<Rightarrow> bool" where
  "leap_year y = (y mod 4 = 0 \<and> (y mod 100 \<noteq> 0 \<or> y mod 400 = 0))"

definition days_in_month :: "nat \<Rightarrow> nat \<Rightarrow> nat" where
  "days_in_month y m =
     (if m = 2 then (if leap_year y then 29 else 28)
      else if m = 4 \<or> m = 6 \<or> m = 9 \<or> m = 11 then 30 else 31)"

definition get_first_day :: "date \<Rightarrow> date" where
  "get_first_day t = (case t of (y, m, d) \<Rightarrow> (y, m, 1))"

definition get_last_day :: "date \<Rightarrow> date" where
  "get_last_day t = (case t of (y, m, d) \<Rightarrow> (y, m, days_in_month y m))"

section \<open>usage\_limits.py\<close>

definition LIMITS_CACHE_KEY :: string where
  "LIMITS_CACHE_KEY = ''saas_plan_limits''"

definition get_plan_limits :: "host \<Rightarrow> pyval io" where
  "get_plan_limits h =
     bnd (cache_get_value h LIMITS_CACHE_KEY) (\<lambda>cached.
     bnd (if \<not> truthy cached
          then bnd (conf_get ''saas_plan_limits'' (PDict [])) (\<lambda>limits.
               thn (py_when (truthy limits) (cache_set_value h LIMITS_CACHE_KEY limits))
                   (ret limits))
          else ret cached) (\<lambda>limits.
     ret (py_or limits (PDict []))))"

definition set_plan_limits :: "host \<Rightarrow> pyval \<Rightarrow> unit io" where
  "set_plan_limits h limits =
     thn (cache_set_value h LIMITS_CACHE_KEY limits)
       (try_except
          (bnd (load_site_config h) (\<lambda>config.
           bnd (lift (py_setitem h config ''saas_plan_limits'' limits)) (\<lambda>config'.
           dump_site_config h config')))
          (\<lambda>e. log_error (''Failed to save plan limits to site config: '' @ exn_str e)))"

text \<open>The document a validation hook receives: the attributes the hooks read.\<close>

record document =
  doc_name :: pyval
  user_type :: pyval
  docstatus :: int
  is_new :: bool

text \<open>
  The tail the five hooks share: compare the count with the limit and throw.
\<close>

definition check_limit :: "host \<Rightarrow> int \<Rightarrow> pyval \<Rightarrow> string \<Rightarrow> string \<Rightarrow> unit io" where
  "check_limit h current limit msg title =
     bnd (lift (int_ge h current limit)) (\<lambda>reached.
     if reached then frappe_throw (format1 h (translate h msg) limit) (translate h title)
     else ret ())"

definition validate_user_limit :: "host \<Rightarrow> document \<Rightarrow> unit io" where
  "validate_user_limit h doc =
     (if user_type doc \<noteq> PStr ''System User'' then ret ()
      else if doc_name doc \<in> set [PStr ''Administrator'', PStr ''Guest''] then ret ()
      else
        bnd (get_plan_limits h) (\<lambda>limits.
        bnd (lift (py_get h limits ''max_users'' (PInt 0))) (\<lambda>max_users.
        if \<not> truthy max_users then ret ()
        else
          bnd (db_count ''User''
                 [(''enabled'', Eq (PInt 1)),
                  (''user_type'', Eq (PStr ''System User'')),
                  (''name'', NotIn [PStr ''Administrator'', PStr ''Guest'', doc_name doc])])
            (\<lambda>current_users.
          check_limit h current_users max_users
            ''You have reached the maximum number of users ({0}) allowed in your plan. Please upgrade your plan to add more users.''
            ''User Limit Reached''))))"

definition name_filter :: "document \<Rightarrow> (string \<times> cond) list" where
  "name_filter doc = (if \<not> is_new doc then [(''name'', Ne (doc_name doc))] else [])"

definition validate_customer_limit :: "host \<Rightarrow> document \<Rightarrow> unit io" where
  "validate_customer_limit h doc =
     bnd (get_plan_limits h) (\<lambda>limits.
     bnd (lift (py_get h limits ''max_customers'' (PInt 0))) (\<lambda>max_customers.
     if \<not> truthy max_customers then ret ()
     else
       bnd (db_count ''Customer'' (name_filter doc)) (\<lambda>current_customers.
       check_limit h current_customers max_customers
         ''You have reached the maximum number of customers ({0}) allowed in your plan. Please upgrade your plan to add more customers.''
         ''Customer Limit Reached'')))"

definition validate_supplier_limit :: "host \<Rightarrow> document \<Rightarrow> unit io" where
  "validate_supplier_limit h doc =
     bnd (get_plan_limits h) (\<lambda>limits.
     bnd (lift (py_get h limits ''max_suppliers'' (PInt 0))) (\<lambda>max_suppliers.
     if \<not> truthy max_suppliers then ret ()
     else
       bnd (db_count ''Supplier'' (name_filter doc)) (\<lambda>current_suppliers.
       check_limit h current_suppliers max_suppliers
         ''You have reached the maximum number of suppliers ({0}) allowed in your plan. Please upgrade your plan to add more suppliers.''
         ''Supplier Limit Reached'')))"

definition validate_company_limit :: "host \<Rightarrow> document \<Rightarrow> unit io" where
  "validate_company_limit h doc =
     bnd (get_plan_limits h) (\<lambda>limits.
     bnd (lift (py_get h limits ''max_companies'' (PInt 0))) (\<lambda>max_companies.
     if \<not> truthy max_companies then ret ()
     else
       bnd (db_count ''Company'' (name_filter doc)) (\<lambda>current_companies.
       check_limit h current_companies max_companies
         ''You have reached the maximum number of companies ({0}) allowed in your plan. Please upgrade your plan to add more companies.''
         ''Company Limit Reached'')))"

definition validate_invoice_limit :: "host \<Rightarrow> document \<Rightarrow> unit io" where
  "validate_invoice_limit h doc =
     (if docstatus doc \<noteq> 1 then ret ()
      else
        bnd (get_plan_limits h) (\<lambda>limits.
        bnd (lift (py_get h limits ''max_invoices_per_month'' (PInt 0))) (\<lambda>max_invoices.
        if \<not> truthy max_invoices then ret ()
        else
          bnd (db_count ''Sales Invoice''
                 [(''docstatus'', Eq (PInt 1)),
                  (''posting_date'', Between (get_first_day (today h)) (get_last_day (today h))),
                  (''name'', Ne (doc_name doc))])
            (\<lambda>current_invoices.
          check_limit h current_invoices max_invoices
            ''You have reached the maximum number of invoices ({0}) allowed per month in your plan. Please upgrade your plan to create more invoices.''
            ''Monthly Invoice Limit Reached''))))"

text \<open>\<open>int(x) if x else 0\<close> and \<open>float(x) if x else 0\<close>.\<close>

definition int_or_zero :: "host \<Rightarrow> pyval \<Rightarrow> exn + pyval" where
  "int_or_zero h x =
     (if truthy x then (case py_int h x of Inl e \<Rightarrow> Inl e | Inr i \<Rightarrow> Inr (PInt i))
      else Inr (PInt 0))"

definition float_or_zero :: "host \<Rightarrow> pyval \<Rightarrow> exn + pyval" where
  "float_or_zero h x =
     (if truthy x then (case py_float h x of Inl e \<Rightarrow> Inl e | Inr f \<Rightarrow> Inr (PFloat f))
      else Inr (PInt 0))"

record limit_args =
  max_users :: pyval
  max_customers :: pyval
  max_suppliers :: pyval
  max_companies :: pyval
  max_invoices_per_month :: pyval
  max_storage_gb :: pyval

definition sync_plan_limits_body :: "host \<Rightarrow> limit_args \<Rightarrow> dict io" where
  "sync_plan_limits_body h a =
     bnd (lift (int_or_zero h (max_users a))) (\<lambda>u.
     bnd (lift (int_or_zero h (max_customers a))) (\<lambda>c.
     bnd (lift (int_or_zero h (max_suppliers a))) (\<lambda>sp.
     bnd (lift (int_or_zero h (max_companies a))) (\<lambda>co.
     bnd (lift (int_or_zero h (max_invoices_per_month a))) (\<lambda>inv.
     bnd (lift (float_or_zero h (max_storage_gb a))) (\<lambda>st.
     bnd (ret (PDict [(''max_users'', u), (''max_customers'', c), (''max_suppliers'', sp),
                      (''max_companies'', co), (''max_invoices_per_month'', inv),
                      (''max_storage_gb'', st)])) (\<lambda>limits.
     thn (set_plan_limits h limits)
       (ret [(''success'', PBool True), (''message'', PStr ''Plan limits updated''),
             (''limits'', limits)]))))))))"

definition sync_plan_limits :: "host \<Rightarrow> limit_args \<Rightarrow> dict io" where
  "sync_plan_limits h a =
     try_except (sync_plan_limits_body h a)
       (\<lambda>e. thn (log_error (''Failed to sync plan limits: '' @ exn_str e))
               (ret [(''success'', PBool False), (''error'', PStr (exn_str e))]))"

definition get_current_limits :: "host \<Rightarrow> dict io" where
  "get_current_limits h =
     bnd (get_plan_limits h) (\<lambda>limits.
     ret [(''success'', PBool True), (''limits'', limits)])"

section \<open>setup.py\<close>

subsection \<open>setup\_company\<close>

record company_config =
  company_name :: pyval
  company_abbr :: pyval
  country :: pyval
  currency :: pyval
  chart_of_accounts :: pyval
  fy_name :: pyval
  fy_start_date :: pyval
  fy_end_date :: pyval

text \<open>Decode configuration (the first statements of the \<open>try\<close> block).\<close>

definition read_company_config :: "host \<Rightarrow> pyval \<Rightarrow> company_config io" where
  "read_company_config h config_b64 =
     bnd (lift (decode_config h config_b64)) (\<lambda>config.
     bnd (lift (py_getitem h config ''company_name'')) (\<lambda>v1.
     bnd (lift (py_getitem h config ''company_abbr'')) (\<lambda>v2.
     bnd (lift (py_getitem h config ''country'')) (\<lambda>v3.
     bnd (lift (py_getitem h config ''currency'')) (\<lambda>v4.
     bnd (lift (py_get h config ''chart_of_accounts'' (PStr ''Standard''))) (\<lambda>v5.
     bnd (lift (py_getitem h config ''fy_name'')) (\<lambda>v6.
     bnd (lift (py_getitem h config ''fy_start_date'')) (\<lambda>v7.
     bnd (lift (py_getitem h config ''fy_end_date'')) (\<lambda>v8.
     ret \<lparr>company_name = v1, company_abbr = v2, country = v3, currency = v4,
          chart_of_accounts = v5, fy_name = v6, fy_start_date = v7, fy_end_date = v8\<rparr>)))))))))"

text \<open>Step 1: mark setup complete in \<open>site_config.json\<close>.\<close>

definition step1_site_config :: "host \<Rightarrow> unit io" where
  "step1_site_config h =
     bnd (load_site_config h) (\<lambda>site_config.
     bnd (lift (py_setitem h site_config ''setup_complete'' (PInt 1))) (\<lambda>site_config'.
     thn (dump_site_config h site_config')
         (print ''[SETUP] site_config.json updated with setup_complete=1'')))"

text \<open>Step 2: mark setup complete in System Settings and disable onboarding.\<close>

definition step2_system_settings :: "company_config \<Rightarrow> unit io" where
  "step2_system_settings c =
     seq [set_single_value ''System Settings'' ''setup_complete'' (PInt 1),
          set_single_value ''System Settings'' ''enable_onboarding'' (PInt 0),
          set_single_value ''System Settings'' ''country'' (country c),
          set_single_value ''System Settings'' ''language'' (PStr ''en''),
          set_single_value ''System Settings'' ''time_zone'' (PStr ''Asia/Kolkata''),
          db_commit,
          print ''[SETUP] System Settings updated with setup_complete=1, enable_onboarding=0'']"

text \<open>Step 2b: mark the installed apps as setup complete.\<close>

definition step2b_installed_apps :: "unit io" where
  "step2b_installed_apps =
     thn (for_each [''frappe'', ''erpnext''] (\<lambda>app_name.
            bnd (db_exists_where ''Installed Application'' [(''app_name'', Eq (PStr app_name))])
              (\<lambda>found.
            py_when found
              (thn (db_set_value ''Installed Application'' [(''app_name'', Eq (PStr app_name))]
                      ''is_setup_complete'' (PInt 1))
                   (print (''[SETUP] Marked '' @ app_name @
                           '' as setup complete in Installed Application''))))))
         db_commit"

text \<open>Step 2c: set the desktop home page.\<close>

definition step2c_home_page :: "unit io" where
  "step2c_home_page =
     seq [set_default ''desktop:home_page'' (PStr ''home''),
          db_commit,
          print (''[SETUP] Set desktop:home_page to '' @ quoted ''home'' @
                 '' (prevents setup wizard redirect)'')]"

text \<open>Step 3: create the warehouse types.\<close>

definition step3_warehouse_types :: "host \<Rightarrow> unit io" where
  "step3_warehouse_types h =
     thn (for_each [''Transit'', ''Stores'', ''Goods In Transit'', ''Virtual''] (\<lambda>wt.
            bnd (db_exists ''Warehouse Type'' (PStr wt)) (\<lambda>found.
            py_when (\<not> found)
              (bnd (insert_doc h ''Warehouse Type'' [(''name'', PStr wt)]) (\<lambda>doc.
               print (''[SETUP] Created Warehouse Type: '' @ wt))))))
         db_commit"

text \<open>Step 4: create the company with its chart of accounts.\<close>

definition company_defaults :: "company_config \<Rightarrow> unit io" where
  "company_defaults c =
     seq [set_default ''company'' (company_name c),
          set_default ''country'' (country c),
          set_default ''currency'' (currency c),
          db_commit]"

definition step4_company :: "host \<Rightarrow> company_config \<Rightarrow> unit io" where
  "step4_company h c =
     thn (set_in_setup_wizard True)
    (bnd (db_exists ''Company'' (company_name c)) (\<lambda>found.
     thn (if \<not> found
          then thn (print (''[SETUP] Creating company: '' @ str_of h (company_name c)))
              (bnd (insert_doc h ''Company''
                      [(''company_name'', company_name c),
                       (''abbr'', company_abbr c),
                       (''country'', country c),
                       (''default_currency'', currency c),
                       (''enable_perpetual_inventory'', PInt 1),
                       (''chart_of_accounts'', chart_of_accounts c)]) (\<lambda>company.
               thn (company_defaults c)
                   (print (''[SETUP] Company created: '' @ str_of h (company_name c)))))
          else thn (company_defaults c)
                   (print (''[SETUP] Company already exists: '' @ str_of h (company_name c))))
         (set_in_setup_wizard False)))"

text \<open>Step 5: create the fiscal year.\<close>

definition step5_fiscal_year :: "host \<Rightarrow> company_config \<Rightarrow> unit io" where
  "step5_fiscal_year h c =
     bnd (db_exists ''Fiscal Year'' (fy_name c)) (\<lambda>found.
     if \<not> found
     then thn (print (''[SETUP] Creating fiscal year: '' @ str_of h (fy_name c)))
         (bnd (insert_doc h ''Fiscal Year''
                 [(''year'', fy_name c),
                  (''year_start_date'', fy_start_date c),
                  (''year_end_date'', fy_end_date c),
                  (''is_short_year'', PInt 0)]) (\<lambda>fy.
          seq [set_default ''fiscal_year'' (fy_name c),
               db_commit,
               print (''[SETUP] Fiscal Year created: '' @ str_of h (fy_name c))]))
     else seq [set_default ''fiscal_year'' (fy_name c),
               db_commit,
               print (''[SETUP] Fiscal Year exists: '' @ str_of h (fy_name c))])"

text \<open>
  Steps 6, 7 and 8: a settings document is updated if its doctype exists; a failure is
  printed as a warning and goes no further.
\<close>

definition update_settings :: "host \<Rightarrow> string \<Rightarrow> dict \<Rightarrow> string \<Rightarrow> unit io" where
  "update_settings h dt upd done =
     bnd (db_exists ''DocType'' (PStr dt)) (\<lambda>found.
     py_when found
       (try_except
          (seq [get_single h dt, save_single h dt upd, db_commit, print done])
          (\<lambda>e. print (''[SETUP] Warning: Could not update '' @ dt @ '': '' @ exn_str e))))"

definition step6_erpnext_settings :: "host \<Rightarrow> unit io" where
  "step6_erpnext_settings h =
     update_settings h ''ERPNext Settings'' [(''setup_complete'', PInt 1)]
       ''[SETUP] ERPNext Settings updated with setup_complete=1''"

definition step7_global_defaults :: "host \<Rightarrow> company_config \<Rightarrow> unit io" where
  "step7_global_defaults h c =
     update_settings h ''Global Defaults''
       [(''default_company'', company_name c),
        (''current_fiscal_year'', fy_name c),
        (''country'', country c),
        (''default_currency'', currency c)]
       ''[SETUP] Global Defaults updated''"

definition step8_stock_settings :: "host \<Rightarrow> unit io" where
  "step8_stock_settings h =
     update_settings h ''Stock Settings'' [(''stock_uom'', PStr ''Nos'')]
       ''[SETUP] Stock Settings updated''"

text \<open>Step 9: clear all caches.\<close>

definition step9_clear_cache :: "host \<Rightarrow> unit io" where
  "step9_clear_cache h = thn (clear_cache h) (print ''[SETUP] Cache cleared'')"

text \<open>The steps in the order of the source, from the first print to the cache clear.\<close>

definition setup_steps :: "host \<Rightarrow> company_config \<Rightarrow> unit io" where
  "setup_steps h c =
     seq [print (''[SETUP] Company: '' @ str_of h (company_name c) @ '', Abbr: '' @
                 str_of h (company_abbr c) @ '', Country: '' @ str_of h (country c)),
          set_ignore_permissions True,
          step1_site_config h,
          step2_system_settings c,
          step2b_installed_apps,
          step2c_home_page,
          step3_warehouse_types h,
          step4_company h c,
          step5_fiscal_year h c,
          step6_erpnext_settings h,
          step7_global_defaults h c,
          step8_stock_settings h,
          step9_clear_cache h]"

text \<open>Verify company was created: the two returns of the \<open>try\<close> block.\<close>

definition verify_company :: "host \<Rightarrow> company_config \<Rightarrow> dict io" where
  "verify_company h c =
     bnd (db_exists ''Company'' (company_name c)) (\<lambda>found.
     if found
     then thn (print ''SETUP_SUCCESS'')
              (ret [(''success'', PBool True),
                    (''message'', PStr (''Company '' @ str_of h (company_name c) @
                                        '' created successfully''))])
     else thn (print (''SETUP_FAILED: Company '' @ quoted (str_of h (company_name c)) @
                      '' not found after creation''))
              (ret [(''success'', PBool False),
                    (''message'', PStr (''Company '' @ quoted (str_of h (company_name c)) @
                                        '' not found after creation''))]))"

definition setup_company_body :: "host \<Rightarrow> pyval \<Rightarrow> dict io" where
  "setup_company_body h config_b64 =
     bnd (read_company_config h config_b64) (\<lambda>c.
     thn (setup_steps h c) (verify_company h c))"

definition setup_company :: "host \<Rightarrow> pyval \<Rightarrow> dict io" where
  "setup_company h config_b64 =
     try_except (setup_company_body h config_b64)
       (\<lambda>e. thn (print (''SETUP_FAILED: '' @ exn_str e))
            (thn (print_exc e)
                 (ret [(''success'', PBool False), (''message'', PStr (exn_str e))])))"

subsection \<open>create\_user\<close>

definition admin_password :: "host \<Rightarrow> pyval \<Rightarrow> unit io" where
  "admin_password h password =
     try_except
       (seq [update_password h (PStr ''Administrator'') password,
             db_commit,
             print ''[USER] Administrator password also updated''])
       (\<lambda>admin_err. print (''[USER] Warning: Could not update Administrator password: '' @
                            exn_str admin_err))"

text \<open>The branch for a user that exists; it returns from the function.\<close>

definition update_existing_user :: "host \<Rightarrow> pyval \<Rightarrow> pyval \<Rightarrow> dict io" where
  "update_existing_user h email password =
     thn (update_password h email password)
    (thn db_commit
    (bnd (get_doc h ''User'' email) (\<lambda>user.
     bnd (ret (set_field ''enabled'' (PInt 1) user)) (\<lambda>user.
     bnd (if PStr ''System Manager'' \<notin> set (doc_roles user)
          then add_roles h user ''System Manager'' else ret user) (\<lambda>user.
     thn (save_doc h user)
    (thn db_commit
    (thn (print (''USER_SUCCESS: User '' @ str_of h email @
                 '' exists, password and roles updated''))
         (ret [(''success'', PBool True),
               (''message'', PStr (''User '' @ str_of h email @ '' updated''))]))))))))"

text \<open>The branch for a new user; control goes on to the statements after the \<open>if\<close>.\<close>

definition create_new_user :: "host \<Rightarrow> pyval \<Rightarrow> pyval \<Rightarrow> pyval \<Rightarrow> pyval \<Rightarrow> unit io" where
  "create_new_user h email first_name last_name password =
     bnd (insert_doc h ''User''
            [(''email'', email),
             (''first_name'', first_name),
             (''last_name'', last_name),
             (''enabled'', PInt 1),
             (''user_type'', PStr ''System User''),
             (''send_welcome_email'', PInt 0)]) (\<lambda>user.
     thn (update_password h email password)
    (thn db_commit
    (bnd (add_roles h user ''System Manager'') (\<lambda>user.
     thn db_commit
         (print (''USER_SUCCESS: User '' @ str_of h email @ '' created successfully''))))))"

definition create_user_body :: "host \<Rightarrow> pyval \<Rightarrow> dict io" where
  "create_user_body h config_b64 =
     bnd (lift (decode_config h config_b64)) (\<lambda>config.
     bnd (lift (py_getitem h config ''email'')) (\<lambda>email.
     bnd (lift (py_get h config ''first_name'' (PStr ''User''))) (\<lambda>first_name.
     bnd (lift (py_get h config ''last_name'' (PStr []))) (\<lambda>last_name.
     bnd (lift (py_getitem h config ''password'')) (\<lambda>password.
     thn (print (''[USER] Creating/updating user: '' @ str_of h email))
    (thn (set_ignore_permissions True)
    (bnd (db_exists ''User'' email) (\<lambda>found.
     if found then update_existing_user h email password
     else
       thn (create_new_user h email first_name last_name password)
      (thn (admin_password h password)
           (ret [(''success'', PBool True),
                 (''message'', PStr (''User '' @ str_of h email @
                                     '' created/updated''))]))))))))))"

definition create_user :: "host \<Rightarrow> pyval \<Rightarrow> dict io" where
  "create_user h config_b64 =
     try_except (create_user_body h config_b64)
       (\<lambda>e. thn (print (''USER_FAILED: '' @ exn_str e))
            (thn (print_exc e)
                 (ret [(''success'', PBool False), (''message'', PStr (exn_str e))])))"

section \<open>The quotas as the specification words them\<close>

datatype quota = Users | Customers | Suppliers | Companies | Invoices

fun limit_key :: "quota \<Rightarrow> string" where
  "limit_key Users = ''max_users''"
| "limit_key Customers = ''max_customers''"
| "limit_key Suppliers = ''max_suppliers''"
| "limit_key Companies = ''max_companies''"
| "limit_key Invoices = ''max_invoices_per_month''"

fun quota_doctype :: "quota \<Rightarrow> string" where
  "quota_doctype Users = ''User''"
| "quota_doctype Customers = ''Customer''"
| "quota_doctype Suppliers = ''Supplier''"
| "quota_doctype Companies = ''Company''"
| "quota_doctype Invoices = ''Sales Invoice''"

fun limit_title :: "quota \<Rightarrow> string" where
  "limit_title Users = ''User Limit Reached''"
| "limit_title Customers = ''Customer Limit Reached''"
| "limit_title Suppliers = ''Supplier Limit Reached''"
| "limit_title Companies = ''Company Limit Reached''"
| "limit_title Invoices = ''Monthly Invoice Limit Reached''"

text \<open>
  The number a configured limit is, when it is one: an int, a bool (\<open>True\<close> is 1) or a
  finite float.
\<close>

fun num_val :: "pyval \<Rightarrow> rat option" where
  "num_val (PInt i) = Some (of_int i)"
| "num_val (PBool b) = Some (if b then 1 else 0)"
| "num_val (PFloat (Finite r)) = Some r"
| "num_val _ = None"

text \<open>The validation hook of each quota.\<close>

fun hook :: "quota \<Rightarrow> host \<Rightarrow> document \<Rightarrow> unit io" where
  "hook Users = validate_user_limit"
| "hook Customers = validate_customer_limit"
| "hook Suppliers = validate_supplier_limit"
| "hook Companies = validate_company_limit"
| "hook Invoices = validate_invoice_limit"

text \<open>A posting date that falls in the current month: a day of that month of that year.\<close>

fun in_current_month :: "host \<Rightarrow> date \<Rightarrow> bool" where
  "in_current_month h (y, m, d) =
     (case today h of (ty, tm, td) \<Rightarrow> y = ty \<and> m = tm \<and> 1 \<le> d \<and> d \<le> days_in_month y m)"

text \<open>
  The existing qualifying records of a quota: records of its doctype other than the document
  being saved; for users, enabled System Users other than Administrator and Guest; for
  invoices, submitted invoices posted in the current month.
\<close>

fun qualifies :: "quota \<Rightarrow> host \<Rightarrow> document \<Rightarrow> doc \<Rightarrow> bool" where
  "qualifies Users h doc d =
     (doctype d = ''User'' \<and> docname d \<noteq> doc_name doc \<and>
      docname d \<noteq> PStr ''Administrator'' \<and> docname d \<noteq> PStr ''Guest'' \<and>
      doc_value d ''enabled'' = PInt 1 \<and> doc_value d ''user_type'' = PStr ''System User'')"
| "qualifies Invoices h doc d =
     (doctype d = ''Sales Invoice'' \<and> docname d \<noteq> doc_name doc \<and>
      doc_value d ''docstatus'' = PInt 1 \<and>
      (case map_of (docdates d) ''posting_date'' of
         Some x \<Rightarrow> in_current_month h x
       | None \<Rightarrow> False))"
| "qualifies q h doc d = (doctype d = quota_doctype q \<and> docname d \<noteq> doc_name doc)"

definition existing_count :: "quota \<Rightarrow> host \<Rightarrow> document \<Rightarrow> site \<Rightarrow> int" where
  "existing_count q h doc s = int (length (filter (qualifies q h doc) (docs (db s))))"

text \<open>The documents a hook checks at all: the guards at the head of two of the hooks.\<close>

fun subject_to :: "quota \<Rightarrow> document \<Rightarrow> bool" where
  "subject_to Users doc =
     (user_type doc = PStr ''System User'' \<and>
      doc_name doc \<noteq> PStr ''Administrator'' \<and> doc_name doc \<noteq> PStr ''Guest'')"
| "subject_to Invoices doc = (docstatus doc = 1)"
| "subject_to q doc = True"

section \<open>Results and the configuration file as the specification words them\<close>

text \<open>A result of the exact shape \<open>{"success": bool, "message": str}\<close>.\<close>

definition is_result :: "dict \<Rightarrow> bool" where
  "is_result d =
     (map fst d = [''success'', ''message''] \<and>
      (case map snd d of [PBool b, PStr m] \<Rightarrow> True | _ \<Rightarrow> False))"

text \<open>The value of a key of \<open>site_config.json\<close>, if the file is a JSON object with that key.\<close>

definition config_lookup :: "config_file \<Rightarrow> string \<Rightarrow> pyval option" where
  "config_lookup f k = (case f of Json (PDict kvs) \<Rightarrow> map_of kvs k | _ \<Rightarrow> None)"


text \<open>
  The file after a call, against the file before it: untouched, or the same JSON object
  with the one key set.
\<close>

definition rewritten :: "string \<Rightarrow> pyval \<Rightarrow> config_file \<Rightarrow> config_file \<Rightarrow> bool" where
  "rewritten k v f f' =
     (f' = f \<or> (case f of Json (PDict kvs) \<Rightarrow> f' = Json (PDict (AList.update k v kvs))
                 | _ \<Rightarrow> False))"

section \<open>A concrete host and concrete sites\<close>

text \<open>
  The theorems below hold for every host. Where one is run on an input, it is run on this
  host: an English site whose pipelines accept every document, naming it by its doctype's
  naming field. Its builtins agree with Python on the values used here.
\<close>

fun digits :: "nat \<Rightarrow> string" where
  "digits n = (if n < 10 then [''0123456789'' ! n]
               else digits (n div 10) @ [''0123456789'' ! (n mod 10)])"

definition str_int :: "int \<Rightarrow> string" where
  "str_int i = (if i < 0 then CHR ''-'' # digits (nat (- i)) else digits (nat i))"

fun fill0 :: "string \<Rightarrow> string \<Rightarrow> string" where
  "fill0 r (a # b # c # rest) =
     (if [a, b, c] = ''{0}'' then r @ rest else a # fill0 r (b # c # rest))"
| "fill0 r xs = xs"

definition full_config_b64 :: string where
  "full_config_b64 = ''eyJjb21wYW55X25hbWUiOiAiQWNtZSIsICJjb21wYW55X2FiYnIiOiAiQUMiLCAiY291bnRyeSI6ICJJbmRpYSIsICJjdXJyZW5jeSI6ICJJTlIiLCAiZnlfbmFtZSI6ICIyMDI2LTIwMjciLCAiZnlfc3RhcnRfZGF0ZSI6ICIyMDI2LTA0LTAxIiwgImZ5X2VuZF9kYXRlIjogIjIwMjctMDMtMzEifQ==''"

definition full_config :: dict where
  "full_config = [(''company_name'', PStr ''Acme''), (''company_abbr'', PStr ''AC''),
     (''country'', PStr ''India''), (''currency'', PStr ''INR''),
     (''fy_name'', PStr ''2026-2027''), (''fy_start_date'', PStr ''2026-04-01''),
     (''fy_end_date'', PStr ''2027-03-31'')]"

definition short_config_b64 :: string where
  "short_config_b64 = ''eyJjb21wYW55X25hbWUiOiAiQWNtZSIsICJjb21wYW55X2FiYnIiOiAiQUMiLCAiY291bnRyeSI6ICJJbmRpYSIsICJjdXJyZW5jeSI6ICJJTlIifQ==''"

definition short_config :: dict where
  "short_config = [(''company_name'', PStr ''Acme''), (''company_abbr'', PStr ''AC''),
     (''country'', PStr ''India''), (''currency'', PStr ''INR'')]"

definition user_config_b64 :: string where
  "user_config_b64 = ''eyJlbWFpbCI6ICJvd25lckBhY21lLnRlc3QiLCAiZmlyc3RfbmFtZSI6ICJBZGEiLCAicGFzc3dvcmQiOiAiczNjcmV0ISJ9''"

definition user_config :: dict where
  "user_config = [(''email'', PStr ''owner@acme.test''), (''first_name'', PStr ''Ada''),
     (''password'', PStr ''s3cret!'')]"

text \<open>
  The three encoded configurations decode to their JSON objects; the fourth input used,
  \<open>"not base64!"\<close>, is refused by \<open>base64.b64decode\<close> for its padding.
\<close>

definition example_decode :: "pyval \<Rightarrow> exn + pyval" where
  "example_decode v =
     (if v = PStr ''not base64!'' then Inl (PyExn ''binascii.Error'' ''Incorrect padding'')
      else if v = PStr short_config_b64 then Inr (PDict short_config)
      else if v = PStr full_config_b64 then Inr (PDict full_config)
      else if v = PStr user_config_b64 then Inr (PDict user_config)
      else Inl (PyExn ''binascii.Error'' ''Incorrect padding''))"

definition example_int :: "pyval \<Rightarrow> exn + int" where
  "example_int v =
     (case v of
        PInt i \<Rightarrow> Inr i
      | PBool b \<Rightarrow> Inr (if b then 1 else 0)
      | PStr s \<Rightarrow> Inl (PyExn ''ValueError''
                        (''invalid literal for int() with base 10: '' @ quoted s))
      | _ \<Rightarrow> Inl (PyExn ''TypeError'' ''int() argument must be a string or a number''))"

definition example_float :: "pyval \<Rightarrow> exn + pyfloat" where
  "example_float v =
     (case v of
        PInt i \<Rightarrow> Inr (Finite (of_int i))
      | PFloat f \<Rightarrow> Inr f
      | _ \<Rightarrow> Inl (PyExn ''ValueError'' ''could not convert to float''))"

definition example_str :: "pyval \<Rightarrow> string" where
  "example_str v =
     (case v of
        PStr s \<Rightarrow> s
      | PInt i \<Rightarrow> str_int i
      | PNone \<Rightarrow> ''None''
      | PBool b \<Rightarrow> (if b then ''True'' else ''False'')
      | _ \<Rightarrow> ''...'')"

definition example_message :: "string \<Rightarrow> pyval \<Rightarrow> string" where
  "example_message operation v =
     (if operation = ''open''
      then ''[Errno 2] No such file or directory: '' @ quoted ''./tenant1/site_config.json''
      else if operation = ''json.load'' then ''Expecting value: line 1 column 1 (char 0)''
      else ''unsupported operand type(s) for '' @ operation)"

definition naming_field :: "string \<Rightarrow> string" where
  "naming_field dt =
     (if dt = ''Company'' then ''company_name''
      else if dt = ''Fiscal Year'' then ''year''
      else if dt = ''User'' then ''email''
      else ''name'')"

definition example_insert :: "database \<Rightarrow> string \<Rightarrow> dict \<Rightarrow> exn + pyval" where
  "example_insert b dt flds =
     (case map_of flds (naming_field dt) of
        Some v \<Rightarrow> Inr v
      | None \<Rightarrow> Inl (PyExn ''MandatoryError'' (naming_field dt)))"

definition example_host :: host where
  "example_host =
     \<lparr>decode_config = example_decode,
      py_int = example_int,
      py_float = example_float,
      py_str = example_str,
      translate = (\<lambda>msg. msg),
      format1 = (\<lambda>msg v. fill0 (example_str v) msg),
      interp_msg = example_message,
      on_insert = example_insert,
      on_save = (\<lambda>b dt flds. None),
      on_get_single = (\<lambda>b dt. None),
      on_update_password = (\<lambda>b user pwd. None),
      cache_fault = None,
      cache_after_clear = (\<lambda>c. []),
      open_write_fault = None,
      today = (2026, 11, 4)\<rparr>"

text \<open>The same host with the cache backend failing.\<close>

definition cacheless_host :: host where
  "cacheless_host = example_host\<lparr>cache_fault := Some (PyExn ''redis.exceptions.TimeoutError'' ''Timeout reading from socket'')\<rparr>"

text \<open>The same host, whose validation refuses every Fiscal Year.\<close>

definition strict_host :: host where
  "strict_host = example_host\<lparr>on_insert := (\<lambda>b dt flds.
     if dt = ''Fiscal Year''
     then Inl (PyExn ''ValidationError'' ''Year start date must be before year end date'')
     else example_insert b dt flds)\<rparr>"


definition empty_db :: database where
  "empty_db = \<lparr>docs = [], singles = [], defaults = [], passwords = []\<rparr>"

text \<open>
  A tenant site as it is created: a configuration file, and a database that holds only
  the doctypes of two settings documents.
\<close>

definition tenant_db :: database where
  "tenant_db = empty_db\<lparr>docs := [Doc ''DocType'' (PStr ''Global Defaults'') [] [],
                               Doc ''DocType'' (PStr ''Stock Settings'') [] []]\<rparr>"

definition new_site :: site where
  "new_site =
     \<lparr>cache = [], conf = [(''db_name'', PStr ''tenant1'')],
      site_config = Json (PDict [(''db_name'', PStr ''tenant1''), (''db_type'', PStr ''mariadb'')]),
      db = tenant_db, committed = tenant_db,
      flag_ignore_permissions = False, flag_in_setup_wizard = False,
      stdout = [], stderr = [], error_log = [], history = []\<rparr>"




text \<open>
  A site on a plan of three users, three customers and two invoices a month: three enabled
  System Users besides Administrator and Guest, one disabled user, one Website User, three
  customers, two invoices submitted in November 2026 and one in October.
\<close>

definition user_doc :: "string \<Rightarrow> int \<Rightarrow> string \<Rightarrow> doc" where
  "user_doc nm en ut =
     Doc ''User'' (PStr nm) [(''enabled'', PInt en), (''user_type'', PStr ut)] []"

definition invoice_doc :: "string \<Rightarrow> int \<Rightarrow> date \<Rightarrow> doc" where
  "invoice_doc nm ds pd =
     Doc ''Sales Invoice'' (PStr nm) [(''docstatus'', PInt ds)] [(''posting_date'', pd)]"

definition plan_db :: database where
  "plan_db = empty_db\<lparr>docs :=
     [user_doc ''Administrator'' 1 ''System User'',
      user_doc ''Guest'' 1 ''Website User'',
      user_doc ''ann@acme.test'' 1 ''System User'',
      user_doc ''bob@acme.test'' 1 ''System User'',
      user_doc ''cy@acme.test'' 1 ''System User'',
      user_doc ''dan@acme.test'' 0 ''System User'',
      user_doc ''eve@shop.test'' 1 ''Website User'',
      Doc ''Customer'' (PStr ''C-1'') [] [],
      Doc ''Customer'' (PStr ''C-2'') [] [],
      Doc ''Customer'' (PStr ''C-3'') [] [],
      invoice_doc ''INV-1'' 1 (2026, 11, 2),
      invoice_doc ''INV-2'' 1 (2026, 11, 3),
      invoice_doc ''INV-0'' 1 (2026, 10, 30)]\<rparr>"

definition plan_limits :: dict where
  "plan_limits = [(''max_users'', PInt 3), (''max_customers'', PInt 3),
     (''max_suppliers'', PInt 0), (''max_companies'', PInt 0),
     (''max_invoices_per_month'', PInt 2), (''max_storage_gb'', PInt 0)]"

definition plan_site :: site where
  "plan_site = new_site\<lparr>cache := [(''saas_plan_limits'', PDict plan_limits)],
                         db := plan_db, committed := plan_db\<rparr>"

text \<open>The same site with no limits configured anywhere.\<close>

definition unlimited_site :: site where
  "unlimited_site = plan_site\<lparr>cache := []\<rparr>"

text \<open>Documents being saved: a fourth System User, a Website User, a draft invoice.\<close>

definition fourth_user :: document where
  "fourth_user = \<lparr>doc_name = PStr ''fay@acme.test'', user_type = PStr ''System User'',
                   docstatus = 0, is_new = True\<rparr>"

definition website_user :: document where
  "website_user = \<lparr>doc_name = PStr ''gus@shop.test'', user_type = PStr ''Website User'',
                    docstatus = 0, is_new = True\<rparr>"

definition draft_invoice :: document where
  "draft_invoice = \<lparr>doc_name = PStr ''INV-3'', user_type = PNone, docstatus = 0, is_new = True\<rparr>"

definition new_supplier :: document where
  "new_supplier = \<lparr>doc_name = PStr ''S-1'', user_type = PNone, docstatus = 0, is_new = True\<rparr>"

text \<open>Arguments of \<open>sync_plan_limits\<close> that \<open>int\<close> refuses.\<close>

definition bad_args :: limit_args where
  "bad_args = \<lparr>max_users = PStr ''abc'', max_customers = PInt 0, max_suppliers = PInt 0,
                max_companies = PInt 0, max_invoices_per_month = PInt 0,
                max_storage_gb = PInt 0\<rparr>"


section \<open>Predicates for reasoning about the embedding\<close>

text \<open>\<open>keeps g m\<close>: whatever \<open>m\<close> does and however it ends, the part \<open>g\<close> of the site is as before.\<close>

definition keeps :: "(site \<Rightarrow> 'b) \<Rightarrow> 'a io \<Rightarrow> bool" where
  "keeps g m = (\<forall>s. g (snd (m s)) = g s)"

text \<open>
  \<open>returns P m\<close>: a value \<open>m\<close> returns satisfies \<open>P\<close>. \<open>total P m\<close>: \<open>m\<close> always
  returns a value, never an exception, and the value satisfies \<open>P\<close>.
\<close>

definition returns :: "('a \<Rightarrow> bool) \<Rightarrow> 'a io \<Rightarrow> bool" where
  "returns P m = (\<forall>s x. fst (m s) = Inr x \<longrightarrow> P x)"

definition total :: "('a \<Rightarrow> bool) \<Rightarrow> 'a io \<Rightarrow> bool" where
  "total P m = (\<forall>s. \<exists>x. fst (m s) = Inr x \<and> P x)"

text \<open>
  \<open>sets_key k v m\<close>: whatever \<open>m\<close> does and however it ends, \<open>site_config.json\<close> is
  untouched or has had the one key \<open>k\<close> set to \<open>v\<close>.
\<close>

definition sets_key :: "string \<Rightarrow> pyval \<Rightarrow> 'a io \<Rightarrow> bool" where
  "sets_key k v m = (\<forall>s. rewritten k v (site_config s) (site_config (snd (m s))))"

section \<open>Reasoning about the embedding\<close>

subsection \<open>Running a function on a state\<close>

lemma ret_apply: "ret x s = (Inr x, s)"
  by (simp add: ret_def)

lemma raise_apply: "raise e s = (Inl e, s)"
  by (simp add: raise_def)

lemma bnd_apply:
  "bnd m f s = (case m s of (Inl e, s') \<Rightarrow> (Inl e, s') | (Inr x, s') \<Rightarrow> f x s')"
  by (simp add: bnd_def)

lemma bnd_Inr: "m s = (Inr x, s') \<Longrightarrow> bnd m f s = f x s'"
  by (simp add: bnd_def)

lemma bnd_Inl: "m s = (Inl e, s') \<Longrightarrow> bnd m f s = (Inl e, s')"
  by (simp add: bnd_def)

lemma thn_apply:
  "thn m n s = (case m s of (Inl e, s') \<Rightarrow> (Inl e, s') | (Inr x, s') \<Rightarrow> n s')"
  by (simp add: thn_def bnd_def)

lemma try_except_apply:
  "try_except m hdl s = (case m s of (Inl e, s') \<Rightarrow> hdl e s' | (Inr x, s') \<Rightarrow> (Inr x, s'))"
  by (simp add: try_except_def)

lemma lift_apply: "lift r s = (case r of Inl e \<Rightarrow> (Inl e, s) | Inr x \<Rightarrow> (Inr x, s))"
  by (simp add: lift_def ret_def raise_def split: sum.splits)

lemma py_when_apply: "py_when b m s = (if b then m s else (Inr (), s))"
  by (simp add: py_when_def ret_def)

lemmas run_simps = ret_apply raise_apply bnd_apply thn_apply try_except_apply lift_apply
  py_when_apply



subsection \<open>What a function leaves alone\<close>

lemma keepsD: "keeps g m \<Longrightarrow> m s = (r, s') \<Longrightarrow> g s' = g s"
  by (metis keeps_def snd_conv)

lemma keeps_ret: "keeps g (ret x)"
  by (simp add: keeps_def ret_def)

lemma keeps_raise: "keeps g (raise e)"
  by (simp add: keeps_def raise_def)

lemma keeps_lift: "keeps g (lift r)"
  by (simp add: keeps_def lift_apply split: sum.splits)

lemma keeps_bnd: "keeps g m \<Longrightarrow> (\<And>x. keeps g (f x)) \<Longrightarrow> keeps g (bnd m f)"
  unfolding keeps_def bnd_def
  by (auto split: prod.splits sum.splits) (metis snd_conv)+

lemma keeps_thn: "keeps g m \<Longrightarrow> keeps g n \<Longrightarrow> keeps g (thn m n)"
  by (simp add: thn_def keeps_bnd)

lemma keeps_try_except: "keeps g m \<Longrightarrow> (\<And>e. keeps g (hdl e)) \<Longrightarrow> keeps g (try_except m hdl)"
  unfolding keeps_def try_except_def
  by (auto split: prod.splits sum.splits) (metis snd_conv)+

lemma keeps_py_when: "keeps g m \<Longrightarrow> keeps g (py_when b m)"
  by (simp add: py_when_def keeps_ret)

lemma keeps_if: "keeps g m \<Longrightarrow> keeps g n \<Longrightarrow> keeps g (if b then m else n)"
  by simp

lemma keeps_seq_Nil: "keeps g (seq [])"
  by (simp add: keeps_ret)

lemma keeps_seq_Cons: "keeps g m \<Longrightarrow> keeps g (seq ms) \<Longrightarrow> keeps g (seq (m # ms))"
  by (simp add: keeps_thn)

lemma keeps_for_each: "(\<And>x. keeps g (f x)) \<Longrightarrow> keeps g (for_each xs f)"
  by (induction xs) (simp_all add: keeps_ret keeps_thn)

lemmas keeps_intros = keeps_ret keeps_raise keeps_lift keeps_bnd keeps_thn keeps_try_except
  keeps_py_when keeps_if keeps_seq_Nil keeps_seq_Cons keeps_for_each

subsection \<open>What a function returns\<close>

lemma returns_ret: "P x \<Longrightarrow> returns P (ret x)"
  by (simp add: returns_def ret_def)

lemma returns_bnd: "(\<And>x. returns P (f x)) \<Longrightarrow> returns P (bnd m f)"
  unfolding returns_def bnd_def
  by (auto split: prod.splits sum.splits)

lemma returns_thn: "returns P n \<Longrightarrow> returns P (thn m n)"
  by (simp add: thn_def returns_bnd)

lemma returns_if: "returns P m \<Longrightarrow> returns P n \<Longrightarrow> returns P (if b then m else n)"
  by simp

lemma total_ret: "P x \<Longrightarrow> total P (ret x)"
  by (simp add: total_def ret_def)

lemma total_thn: "total (\<lambda>_. True) m \<Longrightarrow> total P n \<Longrightarrow> total P (thn m n)"
  unfolding total_def thn_def bnd_def
  by (auto split: prod.splits sum.splits) (metis fst_conv sum.distinct(1))

lemma total_try_except:
  "returns P m \<Longrightarrow> (\<And>e. total P (hdl e)) \<Longrightarrow> total P (try_except m hdl)"
  unfolding total_def returns_def try_except_def
  by (auto split: prod.splits sum.splits) (metis fst_conv)

lemma total_print: "total (\<lambda>_. True) (print line)"
  by (simp add: total_def print_def)

lemma total_print_exc: "total (\<lambda>_. True) (print_exc e)"
  by (simp add: total_def print_exc_def)

lemma total_log_error: "total (\<lambda>_. True) (log_error msg)"
  by (simp add: total_def log_error_def)

section \<open>The validation hooks\<close>

subsection \<open>Reading the limits and counting\<close>

lemma keeps_db_record_event: "keeps db (record_event ev)"
  by (simp add: keeps_def record_event_def)

lemma keeps_db_cache_get_value: "keeps db (cache_get_value h k)"
  unfolding cache_get_value_def
  by (intro keeps_thn keeps_db_record_event) (simp add: keeps_def raise_def split: option.splits)

lemma keeps_db_cache_set_value: "keeps db (cache_set_value h k v)"
  unfolding cache_set_value_def
  by (intro keeps_thn keeps_db_record_event) (simp add: keeps_def raise_def split: option.splits)

lemma keeps_db_conf_get: "keeps db (conf_get k v)"
  unfolding conf_get_def
  by (intro keeps_thn keeps_db_record_event) (simp add: keeps_def)

lemma keeps_db_get_plan_limits: "keeps db (get_plan_limits h)"
  unfolding get_plan_limits_def
  by (intro keeps_intros keeps_db_cache_get_value keeps_db_cache_set_value keeps_db_conf_get)

lemma filter_length_mono:
  "(\<And>x. x \<in> set xs \<Longrightarrow> P x \<Longrightarrow> Q x) \<Longrightarrow> length (filter P xs) \<le> length (filter Q xs)"
  by (induction xs) auto

lemma db_count_apply:
  "db_count dt flt s =
     (Inr (int (length (filter (matches dt flt) (docs (db s))))), s\<lparr>history := history s @ [DbCount dt]\<rparr>)"
  by (simp add: db_count_def thn_apply record_event_def)

lemma date_in_month:
  "in_current_month h v \<Longrightarrow> date_le (get_first_day (today h)) v \<and> date_le v (get_last_day (today h))"
  by (cases v; cases "today h") (auto simp: get_first_day_def get_last_day_def)

lemma user_count_ge:
  "existing_count Users h doc s
     \<le> int (length (filter (matches ''User''
           [(''enabled'', Eq (PInt 1)),
            (''user_type'', Eq (PStr ''System User'')),
            (''name'', NotIn [PStr ''Administrator'', PStr ''Guest'', doc_name doc])])
          (docs (db s))))"
  unfolding existing_count_def
  by (auto intro!: filter_length_mono simp: matches_def doc_value_def)

lemma named_count_ge:
  "q = Customers \<or> q = Suppliers \<or> q = Companies \<Longrightarrow>
   existing_count q h doc s
     \<le> int (length (filter (matches (quota_doctype q) (name_filter doc)) (docs (db s))))"
  unfolding existing_count_def
  by (auto intro!: filter_length_mono simp: matches_def doc_value_def name_filter_def)

lemma invoice_count_ge:
  "existing_count Invoices h doc s
     \<le> int (length (filter (matches ''Sales Invoice''
           [(''docstatus'', Eq (PInt 1)),
            (''posting_date'', Between (get_first_day (today h)) (get_last_day (today h))),
            (''name'', Ne (doc_name doc))])
          (docs (db s))))"
  unfolding existing_count_def
  by (auto intro!: filter_length_mono simp: matches_def doc_value_def date_in_month
      split: option.splits)

lemma num_val_cases:
  assumes "num_val v = Some L"
  obtains i where "v = PInt i" and "L = of_int i"
  | b where "v = PBool b" and "L = (if b then 1 else 0)"
  | "v = PFloat (Finite L)"
proof (cases v)
  case (PFloat f)
  with assms that show ?thesis by (cases f) auto
qed (use assms that in auto)

lemma positive_truthy: "num_val v = Some L \<Longrightarrow> 0 < L \<Longrightarrow> truthy v"
  by (erule num_val_cases) (auto split: if_splits)

lemma zero_falsy: "num_val v = Some 0 \<Longrightarrow> \<not> truthy v"
  by (erule num_val_cases) (auto split: if_splits)

lemma check_limit_reached:
  "num_val v = Some L \<Longrightarrow> L \<le> of_int n \<Longrightarrow>
   check_limit h n v msg title s =
     (Inl (Thrown (translate h title) (format1 h (translate h msg) v)), s)"
  by (erule num_val_cases)
     (auto simp: check_limit_def int_ge_def run_simps frappe_throw_def split: if_splits)

lemma reached_in_code:
  "L \<le> of_int (existing_count q h doc s) \<Longrightarrow> existing_count q h doc s \<le> n \<Longrightarrow>
   (L::rat) \<le> of_int n"
  by (meson of_int_le_iff order_trans)

lemmas limits_run = get_plan_limits_def cache_get_value_def cache_set_value_def conf_get_def
  record_event_def LIMITS_CACHE_KEY_def py_or_def run_simps

lemmas plan_defs = example_host_def plan_site_def new_site_def plan_db_def empty_db_def tenant_db_def
  plan_limits_def user_doc_def invoice_doc_def

lemma plan_site_limits:
  "get_plan_limits example_host plan_site =
     (Inr (PDict plan_limits), plan_site\<lparr>history := [CacheGet ''saas_plan_limits'']\<rparr>)"
  by (simp add: limits_run plan_defs)

lemma unlimited_site_limits:
  "get_plan_limits example_host unlimited_site =
     (Inr (PDict []),
      unlimited_site\<lparr>history := [CacheGet ''saas_plan_limits'', ConfGet ''saas_plan_limits'']\<rparr>)"
  by (simp add: limits_run plan_defs unlimited_site_def)

lemma plan_site_users:
  "doc_name doc = PStr ''fay@acme.test'' \<or> doc_name doc = PStr ''gus@shop.test'' \<Longrightarrow>
   existing_count Users example_host doc plan_site = 3"
  by (auto simp add: existing_count_def plan_defs doc_value_def)

lemma plan_site_invoices: "existing_count Invoices example_host draft_invoice plan_site = 2"
  by (simp add: existing_count_def plan_defs doc_value_def draft_invoice_def days_in_month_def)

subsection \<open>The quota is enforced\<close>

text \<open>
  Claim C1, as amended. For each of the five quotas: when the limits read by the hook give
  the quota's key a number \<open>L > 0\<close>, the existing qualifying records (other than the
  document being saved; for users, enabled System Users other than Administrator and Guest;
  for invoices, submitted invoices posted in the current month) number at least \<open>L\<close>, and the
  document is one the hook checks (for users a System User not named Administrator or Guest,
  for invoices a document with docstatus 1), the hook raises the framework's user-facing
  exception, under the quota's title.
\<close>

theorem quota_reached_raises:
  assumes limits: "get_plan_limits h s = (Inr (PDict d), s1)"
    and key: "map_of d (limit_key q) = Some v"
    and num: "num_val v = Some L"
    and pos: "0 < L"
    and reached: "L \<le> of_int (existing_count q h doc s)"
    and subject: "subject_to q doc"
  shows "\<exists>msg. fst (hook q h doc s) = Inl (Thrown (translate h (limit_title q)) msg)"
proof -
  have same_db: "db s1 = db s"
    using keepsD [OF keeps_db_get_plan_limits limits] .
  have cnt: "existing_count q h doc s1 = existing_count q h doc s"
    by (simp add: existing_count_def same_db)
  note truthy = positive_truthy [OF num pos]
  have code: "L \<le> of_int n" if "existing_count q h doc s1 \<le> n" for n
    using reached that unfolding cnt by (rule reached_in_code)
  show ?thesis
  proof (cases q)
    case Users
    have "L \<le> of_int (int (length (filter (matches ''User''
                 [(''enabled'', Eq (PInt 1)),
                  (''user_type'', Eq (PStr ''System User'')),
                  (''name'', NotIn [PStr ''Administrator'', PStr ''Guest'', doc_name doc])])
                (docs (db s1)))))"
      by (rule code [unfolded Users, OF user_count_ge])
    with Users limits key truthy subject show ?thesis
      by (simp add: validate_user_limit_def bnd_Inr py_get_def lift_apply db_count_apply
          check_limit_reached [OF num])
  next
    case Customers
    have "existing_count Customers h doc s1
            \<le> int (length (filter (matches ''Customer'' (name_filter doc)) (docs (db s1))))"
      using named_count_ge [of Customers h doc s1] by simp
    then have "L \<le> of_int (int (length (filter (matches ''Customer'' (name_filter doc))
                (docs (db s1)))))"
      by (rule code [unfolded Customers])
    with Customers limits key truthy show ?thesis
      by (simp add: validate_customer_limit_def bnd_Inr py_get_def lift_apply db_count_apply
          check_limit_reached [OF num])
  next
    case Suppliers
    have "existing_count Suppliers h doc s1
            \<le> int (length (filter (matches ''Supplier'' (name_filter doc)) (docs (db s1))))"
      using named_count_ge [of Suppliers h doc s1] by simp
    then have "L \<le> of_int (int (length (filter (matches ''Supplier'' (name_filter doc))
                (docs (db s1)))))"
      by (rule code [unfolded Suppliers])
    with Suppliers limits key truthy show ?thesis
      by (simp add: validate_supplier_limit_def bnd_Inr py_get_def lift_apply db_count_apply
          check_limit_reached [OF num])
  next
    case Companies
    have "existing_count Companies h doc s1
            \<le> int (length (filter (matches ''Company'' (name_filter doc)) (docs (db s1))))"
      using named_count_ge [of Companies h doc s1] by simp
    then have "L \<le> of_int (int (length (filter (matches ''Company'' (name_filter doc))
                (docs (db s1)))))"
      by (rule code [unfolded Companies])
    with Companies limits key truthy show ?thesis
      by (simp add: validate_company_limit_def bnd_Inr py_get_def lift_apply db_count_apply
          check_limit_reached [OF num])
  next
    case Invoices
    have "L \<le> of_int (int (length (filter (matches ''Sales Invoice''
                 [(''docstatus'', Eq (PInt 1)),
                  (''posting_date'', Between (get_first_day (today h)) (get_last_day (today h))),
                  (''name'', Ne (doc_name doc))])
                (docs (db s1)))))"
      by (rule code [unfolded Invoices, OF invoice_count_ge])
    with Invoices limits key truthy subject show ?thesis
      by (simp add: validate_invoice_limit_def bnd_Inr py_get_def lift_apply db_count_apply
          check_limit_reached [OF num])
  qed
qed

theorem quota_reached_raises_witness:
  "fst (get_plan_limits example_host plan_site) = Inr (PDict plan_limits)
   \<and> map_of plan_limits ''max_users'' = Some (PInt 3)
   \<and> existing_count Users example_host fourth_user plan_site = 3
   \<and> subject_to Users fourth_user
   \<and> (\<exists>msg. fst (validate_user_limit example_host fourth_user plan_site)
                = Inl (Thrown ''User Limit Reached'' msg))"
proof -
  have k: "map_of plan_limits (limit_key Users) = Some (PInt 3)"
    by (simp add: plan_limits_def)
  have c: "existing_count Users example_host fourth_user plan_site = 3"
    by (rule plan_site_users) (simp add: fourth_user_def)
  have sb: "subject_to Users fourth_user"
    by (simp add: fourth_user_def)
  have "\<exists>msg. fst (hook Users example_host fourth_user plan_site)
                = Inl (Thrown (translate example_host (limit_title Users)) msg)"
    by (rule quota_reached_raises [OF plan_site_limits k _ _ _ sb, of 3]) (simp_all add: c)
  then show ?thesis
    using plan_site_limits k c sb by (simp add: example_host_def)
qed

text \<open>
  The claim as it stands, without the guards, fails: on a plan of three users with three
  qualifying users, saving a Website User does not raise; on a plan of two invoices a month
  with two submitted this month, saving a draft invoice does not raise.
\<close>

theorem quota_guard_counterexample:
  "fst (get_plan_limits example_host plan_site) = Inr (PDict plan_limits)
   \<and> map_of plan_limits ''max_users'' = Some (PInt 3)
   \<and> existing_count Users example_host website_user plan_site = 3
   \<and> fst (validate_user_limit example_host website_user plan_site) = Inr ()
   \<and> map_of plan_limits ''max_invoices_per_month'' = Some (PInt 2)
   \<and> existing_count Invoices example_host draft_invoice plan_site = 2
   \<and> fst (validate_invoice_limit example_host draft_invoice plan_site) = Inr ()"
proof -
  have "existing_count Users example_host website_user plan_site = 3"
    by (rule plan_site_users) (simp add: website_user_def)
  moreover have "fst (validate_user_limit example_host website_user plan_site) = Inr ()"
    by (simp add: validate_user_limit_def website_user_def ret_apply)
  moreover have "fst (validate_invoice_limit example_host draft_invoice plan_site) = Inr ()"
    by (simp add: validate_invoice_limit_def draft_invoice_def ret_apply)
  ultimately show ?thesis
    using plan_site_limits plan_site_invoices by (simp add: plan_limits_def)
qed

subsection \<open>Zero or absent means unlimited\<close>

text \<open>
  Claim C8. For every document and every site whose limits give the quota's key the value 0
  (as an int, a bool or a float) or no value at all, the quota's hook returns without
  raising, whatever the database holds.
\<close>

theorem unlimited_returns:
  assumes limits: "get_plan_limits h s = (Inr (PDict d), s1)"
    and key: "map_of d (limit_key q) = None
              \<or> (\<exists>v. map_of d (limit_key q) = Some v \<and> num_val v = Some 0)"
  shows "fst (hook q h doc s) = Inr ()"
proof -
  have "\<exists>v. py_get h (PDict d) (limit_key q) (PInt 0) = Inr v \<and> \<not> truthy v"
    using key by (auto simp: py_get_def zero_falsy)
  then obtain v where "py_get h (PDict d) (limit_key q) (PInt 0) = Inr v" and "\<not> truthy v"
    by blast
  with limits show ?thesis
    by (cases q)
       (simp_all add: validate_user_limit_def validate_customer_limit_def
          validate_supplier_limit_def validate_company_limit_def validate_invoice_limit_def
          bnd_Inr lift_apply ret_apply)
qed

theorem unlimited_returns_witness:
  "fst (get_plan_limits example_host plan_site) = Inr (PDict plan_limits)
   \<and> map_of plan_limits ''max_suppliers'' = Some (PInt 0)
   \<and> fst (validate_supplier_limit example_host new_supplier plan_site) = Inr ()
   \<and> fst (get_plan_limits example_host unlimited_site) = Inr (PDict [])
   \<and> existing_count Users example_host fourth_user unlimited_site = 3
   \<and> fst (validate_user_limit example_host fourth_user unlimited_site) = Inr ()"
proof -
  have k: "map_of plan_limits (limit_key Suppliers) = None
           \<or> (\<exists>v. map_of plan_limits (limit_key Suppliers) = Some v \<and> num_val v = Some 0)"
    by (simp add: plan_limits_def)
  have c: "existing_count Users example_host fourth_user unlimited_site = 3"
    using plan_site_users [of fourth_user]
    by (simp add: existing_count_def unlimited_site_def fourth_user_def)
  show ?thesis
    using unlimited_returns [OF plan_site_limits k, of new_supplier]
      unlimited_returns [OF unlimited_site_limits, of Users fourth_user]
      plan_site_limits unlimited_site_limits c
    by (simp add: plan_limits_def)
qed

subsection \<open>Documents the user hook does not check\<close>

text \<open>
  Claim C9. If the document is not a System User, or is named Administrator or Guest,
  \<open>validate_user_limit\<close> returns without raising and leaves the site as it was: nothing is
  added to the history of reads, so neither the limits were read nor the users counted,
  whatever the limits are and even with the cache backend failing.
\<close>

theorem exempt_user_untouched:
  assumes "user_type doc \<noteq> PStr ''System User'' \<or> doc_name doc = PStr ''Administrator''
           \<or> doc_name doc = PStr ''Guest''"
  shows "validate_user_limit h doc s = (Inr (), s)"
  using assms by (auto simp: validate_user_limit_def ret_apply)

theorem exempt_user_untouched_witness:
  "user_type website_user \<noteq> PStr ''System User''
   \<and> map_of plan_limits ''max_users'' = Some (PInt 3)
   \<and> existing_count Users example_host website_user plan_site = 3
   \<and> validate_user_limit example_host website_user plan_site = (Inr (), plan_site)
   \<and> validate_user_limit cacheless_host website_user plan_site = (Inr (), plan_site)"
proof -
  have e: "user_type website_user \<noteq> PStr ''System User''
           \<or> doc_name website_user = PStr ''Administrator''
           \<or> doc_name website_user = PStr ''Guest''"
    by (simp add: website_user_def)
  have c: "existing_count Users example_host website_user plan_site = 3"
    by (rule plan_site_users) (simp add: website_user_def)
  show ?thesis
    using exempt_user_untouched [OF e, of example_host plan_site]
      exempt_user_untouched [OF e, of cacheless_host plan_site] c
    by (simp add: website_user_def plan_limits_def)
qed

section \<open>The entry points\<close>

subsection \<open>The shape of the results\<close>

lemmas returns_intros = returns_bnd returns_thn returns_if returns_ret

lemma total_handler:
  "total is_result
     (thn (print line) (thn (print_exc e)
        (ret [(''success'', PBool False), (''message'', PStr (exn_str e))])))"
  by (intro total_thn total_print total_print_exc total_ret) (simp add: is_result_def)

lemma returns_setup_company_body: "returns is_result (setup_company_body h config_b64)"
  unfolding setup_company_body_def verify_company_def
  by (intro returns_intros) (simp_all add: is_result_def)

lemma returns_create_user_body: "returns is_result (create_user_body h config_b64)"
  unfolding create_user_body_def update_existing_user_def
  by (intro returns_intros) (simp_all add: is_result_def)

lemma total_setup_company: "total is_result (setup_company h config_b64)"
  unfolding setup_company_def
  by (intro total_try_except returns_setup_company_body total_handler)

lemma total_create_user: "total is_result (create_user h config_b64)"
  unfolding create_user_def
  by (intro total_try_except returns_create_user_body total_handler)

lemma total_sync_plan_limits: "total (\<lambda>d. True) (sync_plan_limits h a)"
  unfolding sync_plan_limits_def
  by (intro total_try_except total_thn total_log_error total_ret) (simp_all add: returns_def)

text \<open>
  Claim C2. For every input \<open>config_b64\<close>, whatever it decodes to or fails to decode to, on
  every site and host, \<open>setup_company\<close> and \<open>create_user\<close> each return a dict with exactly
  the keys \<open>success\<close>, a bool, and \<open>message\<close>, a str; neither raises.
\<close>

theorem entry_points_result_shape:
  "(\<exists>d. fst (setup_company h config_b64 s) = Inr d \<and> is_result d)
   \<and> (\<exists>d. fst (create_user h config_b64 s) = Inr d \<and> is_result d)"
  using total_setup_company [of h config_b64] total_create_user [of h config_b64]
  by (simp add: total_def)

subsection \<open>The catch-all handlers\<close>

text \<open>
  Claim C3, as amended. \<open>setup_company\<close>, \<open>create_user\<close> and \<open>sync_plan_limits\<close> wrap their
  body in a catch-all handler: for every input none of them raises, and when the body raises
  \<open>e\<close> the entry point logs the error (on standard output and the traceback on standard
  error, or in the error log) and returns a failure dict holding \<open>str(e)\<close>, the site being
  otherwise as the body left it. \<open>get_current_limits\<close> has no handler: an exception raised
  while the limits are read reaches its caller.
\<close>

theorem handlers_catch_all:
  "(\<exists>d. fst (setup_company h config_b64 s) = Inr d)
   \<and> (\<exists>d. fst (create_user h config_b64 s) = Inr d)
   \<and> (\<exists>d. fst (sync_plan_limits h a s) = Inr d)
   \<and> (\<forall>e s1. setup_company_body h config_b64 s = (Inl e, s1) \<longrightarrow>
         setup_company h config_b64 s =
           (Inr [(''success'', PBool False), (''message'', PStr (exn_str e))],
            s1\<lparr>stdout := stdout s1 @ [''SETUP_FAILED: '' @ exn_str e],
               stderr := stderr s1 @ [exn_str e]\<rparr>))
   \<and> (\<forall>e s1. create_user_body h config_b64 s = (Inl e, s1) \<longrightarrow>
         create_user h config_b64 s =
           (Inr [(''success'', PBool False), (''message'', PStr (exn_str e))],
            s1\<lparr>stdout := stdout s1 @ [''USER_FAILED: '' @ exn_str e],
               stderr := stderr s1 @ [exn_str e]\<rparr>))
   \<and> (\<forall>e s1. sync_plan_limits_body h a s = (Inl e, s1) \<longrightarrow>
         sync_plan_limits h a s =
           (Inr [(''success'', PBool False), (''error'', PStr (exn_str e))],
            s1\<lparr>error_log := error_log s1 @ [''Failed to sync plan limits: '' @ exn_str e]\<rparr>))
   \<and> (\<forall>e s1. get_plan_limits h s = (Inl e, s1) \<longrightarrow> get_current_limits h s = (Inl e, s1))"
proof -
  have "\<exists>d. fst (setup_company h config_b64 s) = Inr d"
    using total_setup_company [of h config_b64] by (auto simp: total_def)
  moreover have "\<exists>d. fst (create_user h config_b64 s) = Inr d"
    using total_create_user [of h config_b64] by (auto simp: total_def)
  moreover have "\<exists>d. fst (sync_plan_limits h a s) = Inr d"
    using total_sync_plan_limits [of h a] by (auto simp: total_def)
  moreover have "\<forall>e s1. setup_company_body h config_b64 s = (Inl e, s1) \<longrightarrow>
         setup_company h config_b64 s =
           (Inr [(''success'', PBool False), (''message'', PStr (exn_str e))],
            s1\<lparr>stdout := stdout s1 @ [''SETUP_FAILED: '' @ exn_str e],
               stderr := stderr s1 @ [exn_str e]\<rparr>)"
    by (simp add: setup_company_def run_simps print_def print_exc_def)
  moreover have "\<forall>e s1. create_user_body h config_b64 s = (Inl e, s1) \<longrightarrow>
         create_user h config_b64 s =
           (Inr [(''success'', PBool False), (''message'', PStr (exn_str e))],
            s1\<lparr>stdout := stdout s1 @ [''USER_FAILED: '' @ exn_str e],
               stderr := stderr s1 @ [exn_str e]\<rparr>)"
    by (simp add: create_user_def run_simps print_def print_exc_def)
  moreover have "\<forall>e s1. sync_plan_limits_body h a s = (Inl e, s1) \<longrightarrow>
         sync_plan_limits h a s =
           (Inr [(''success'', PBool False), (''error'', PStr (exn_str e))],
            s1\<lparr>error_log := error_log s1 @ [''Failed to sync plan limits: '' @ exn_str e]\<rparr>)"
    by (simp add: sync_plan_limits_def run_simps log_error_def)
  moreover have "\<forall>e s1. get_plan_limits h s = (Inl e, s1) \<longrightarrow>
         get_current_limits h s = (Inl e, s1)"
    by (simp add: get_current_limits_def bnd_Inl)
  ultimately show ?thesis
    by blast
qed

lemma bad_config_setup:
  "setup_company_body example_host (PStr ''not base64!'') new_site =
     (Inl (PyExn ''binascii.Error'' ''Incorrect padding''), new_site)"
  by (simp add: setup_company_body_def read_company_config_def run_simps example_host_def
      example_decode_def)

lemma bad_config_user:
  "create_user_body example_host (PStr ''not base64!'') new_site =
     (Inl (PyExn ''binascii.Error'' ''Incorrect padding''), new_site)"
  by (simp add: create_user_body_def run_simps example_host_def example_decode_def)

lemma bad_args_sync:
  "sync_plan_limits_body example_host bad_args new_site =
     (Inl (PyExn ''ValueError'' (''invalid literal for int() with base 10: '' @ quoted ''abc'')),
      new_site)"
  by (simp add: sync_plan_limits_body_def run_simps example_host_def example_int_def
      int_or_zero_def bad_args_def)

lemma cacheless_limits:
  "get_plan_limits cacheless_host new_site =
     (Inl (PyExn ''redis.exceptions.TimeoutError'' ''Timeout reading from socket''),
      new_site\<lparr>history := [CacheGet ''saas_plan_limits'']\<rparr>)"
  by (simp add: limits_run cacheless_host_def example_host_def new_site_def)

theorem handlers_catch_all_witness:
  "setup_company_body example_host (PStr ''not base64!'') new_site =
     (Inl (PyExn ''binascii.Error'' ''Incorrect padding''), new_site)
   \<and> setup_company example_host (PStr ''not base64!'') new_site =
       (Inr [(''success'', PBool False), (''message'', PStr ''Incorrect padding'')],
        new_site\<lparr>stdout := [''SETUP_FAILED: Incorrect padding''],
                 stderr := [''Incorrect padding'']\<rparr>)
   \<and> create_user_body example_host (PStr ''not base64!'') new_site =
       (Inl (PyExn ''binascii.Error'' ''Incorrect padding''), new_site)
   \<and> create_user example_host (PStr ''not base64!'') new_site =
       (Inr [(''success'', PBool False), (''message'', PStr ''Incorrect padding'')],
        new_site\<lparr>stdout := [''USER_FAILED: Incorrect padding''],
                 stderr := [''Incorrect padding'']\<rparr>)
   \<and> fst (sync_plan_limits example_host bad_args new_site) =
       Inr [(''success'', PBool False),
            (''error'', PStr (''invalid literal for int() with base 10: '' @ quoted ''abc''))]
   \<and> error_log (snd (sync_plan_limits example_host bad_args new_site)) =
       [''Failed to sync plan limits: invalid literal for int() with base 10: '' @ quoted ''abc'']
   \<and> fst (get_plan_limits cacheless_host new_site) =
       Inl (PyExn ''redis.exceptions.TimeoutError'' ''Timeout reading from socket'')
   \<and> fst (get_current_limits cacheless_host new_site) =
       Inl (PyExn ''redis.exceptions.TimeoutError'' ''Timeout reading from socket'')"
  using handlers_catch_all [of example_host "PStr ''not base64!''" new_site bad_args]
    handlers_catch_all [of cacheless_host "PStr ''not base64!''" new_site bad_args]
    bad_config_setup bad_config_user bad_args_sync cacheless_limits
  by (simp add: new_site_def)

text \<open>
  The claim as it stands fails for \<open>get_current_limits\<close>: with the cache backend failing,
  the exception of the cache read propagates to the caller.
\<close>

theorem get_current_limits_counterexample:
  "get_current_limits cacheless_host new_site =
     (Inl (PyExn ''redis.exceptions.TimeoutError'' ''Timeout reading from socket''),
      new_site\<lparr>history := [CacheGet ''saas_plan_limits'']\<rparr>)"
  by (simp add: get_current_limits_def bnd_apply cacheless_limits)

section \<open>Storing and reading the limits\<close>













subsection \<open>Round trip of the quota endpoints\<close>









section \<open>setup\_company\<close>

subsection \<open>What leaves the configuration file alone\<close>


















subsection \<open>The one key that is set\<close>

lemma rewritten_refl: "rewritten k v f f"
  by (simp add: rewritten_def)



lemma sets_key_keeps: "keeps site_config m \<Longrightarrow> sets_key k v m"
  by (simp add: sets_key_def keeps_def rewritten_refl)











subsection \<open>Runs of setup\_company on the concrete sites\<close>

lemmas prim_defs = print_def print_exc_def log_error_def record_event_def
  set_ignore_permissions_def set_in_setup_wizard_def set_single_value_def set_default_def
  db_commit_def db_exists_def db_exists_where_def db_set_value_def insert_doc_def get_doc_def
  save_doc_def add_roles_def get_single_def save_single_def update_password_def clear_cache_def
  load_site_config_def dump_site_config_def

lemmas setup_defs = setup_company_body_def read_company_config_def
  setup_steps_def step1_site_config_def step2_system_settings_def step2b_installed_apps_def
  step2c_home_page_def step3_warehouse_types_def company_defaults_def step4_company_def
  step5_fiscal_year_def update_settings_def step6_erpnext_settings_def
  step7_global_defaults_def step8_stock_settings_def step9_clear_cache_def verify_company_def

lemmas value_defs = py_getitem_def py_get_def py_setitem_def str_of_def has_doc_def matches_def
  doc_value_def set_field_def doc_roles_def config_lookup_def

lemmas host_defs = example_host_def example_decode_def example_insert_def naming_field_def
  full_config_def short_config_def full_config_b64_def short_config_b64_def
  new_site_def tenant_db_def empty_db_def


lemma setup_company_handles:
  "setup_company_body h config_b64 s = (Inl e, s1) \<Longrightarrow>
   setup_company h config_b64 s =
     (Inr [(''success'', PBool False), (''message'', PStr (exn_str e))],
      s1\<lparr>stdout := stdout s1 @ [''SETUP_FAILED: '' @ exn_str e],
         stderr := stderr s1 @ [exn_str e]\<rparr>)"
  by (simp add: setup_company_def run_simps print_def print_exc_def)



text \<open>A new tenant on the host that refuses the fiscal year.\<close>

lemma strict_run:
  "case setup_company_body strict_host (PStr full_config_b64) new_site of
     (r, s1) \<Rightarrow>
       r = Inl (PyExn ''ValidationError'' ''Year start date must be before year end date'')
       \<and> config_lookup (site_config s1) ''setup_complete'' = Some (PInt 1)
       \<and> map_of (singles (committed s1)) (''System Settings'', ''setup_complete'') = Some (PInt 1)
       \<and> map_of (defaults (committed s1)) ''company'' = Some (PStr ''Acme'')
       \<and> has_doc (committed s1) ''Company'' (PStr ''Acme'')
       \<and> \<not> has_doc (db s1) ''Fiscal Year'' (PStr ''2026-2027'')"
  by (simp add: setup_defs prim_defs value_defs host_defs run_simps strict_host_def)



subsection \<open>When setup\_company reports success\<close>






subsection \<open>A failure part of the way\<close>

text \<open>
  Claim C7. There is an execution of \<open>setup_company\<close> in which an exception is raised part
  of the way through the steps, the function returns a failure, and what the earlier steps
  did remains: on the new tenant, with a host whose validation refuses the fiscal year,
  the body raises at step 5 and \<open>setup_company\<close> returns \<open>success: False\<close>, while
  \<open>site_config.json\<close> and the committed System Settings hold \<open>setup_complete = 1\<close> and the
  Company and its defaults are committed, none of which was there before.
\<close>

theorem setup_company_not_atomic:
  "fst (setup_company_body strict_host (PStr full_config_b64) new_site) =
     Inl (PyExn ''ValidationError'' ''Year start date must be before year end date'')
   \<and> fst (setup_company strict_host (PStr full_config_b64) new_site) =
       Inr [(''success'', PBool False),
            (''message'', PStr ''Year start date must be before year end date'')]
   \<and> config_lookup (site_config new_site) ''setup_complete'' = None
   \<and> config_lookup (site_config (snd (setup_company strict_host (PStr full_config_b64) new_site)))
        ''setup_complete'' = Some (PInt 1)
   \<and> map_of (singles (committed new_site)) (''System Settings'', ''setup_complete'') = None
   \<and> map_of (singles (committed (snd (setup_company strict_host (PStr full_config_b64) new_site))))
        (''System Settings'', ''setup_complete'') = Some (PInt 1)
   \<and> map_of (defaults (committed new_site)) ''company'' = None
   \<and> map_of (defaults (committed (snd (setup_company strict_host (PStr full_config_b64) new_site))))
        ''company'' = Some (PStr ''Acme'')
   \<and> \<not> has_doc (committed new_site) ''Company'' (PStr ''Acme'')
   \<and> has_doc (committed (snd (setup_company strict_host (PStr full_config_b64) new_site)))
        ''Company'' (PStr ''Acme'')"
proof -
  obtain r s1 where body: "setup_company_body strict_host (PStr full_config_b64) new_site = (r, s1)"
    by (cases "setup_company_body strict_host (PStr full_config_b64) new_site")
  with strict_run have
    r: "r = Inl (PyExn ''ValidationError'' ''Year start date must be before year end date'')"
    and after: "config_lookup (site_config s1) ''setup_complete'' = Some (PInt 1)"
      "map_of (singles (committed s1)) (''System Settings'', ''setup_complete'') = Some (PInt 1)"
      "map_of (defaults (committed s1)) ''company'' = Some (PStr ''Acme'')"
      "has_doc (committed s1) ''Company'' (PStr ''Acme'')"
    by simp_all
  note run = setup_company_handles [OF body [unfolded r]]
  have before: "config_lookup (site_config new_site) ''setup_complete'' = None"
    "map_of (singles (committed new_site)) (''System Settings'', ''setup_complete'') = None"
    "map_of (defaults (committed new_site)) ''company'' = None"
    "\<not> has_doc (committed new_site) ''Company'' (PStr ''Acme'')"
    by (simp_all add: config_lookup_def has_doc_def new_site_def tenant_db_def empty_db_def)
  show ?thesis
    unfolding run body r
    using before after by simp
qed

end
